theory Spec2Isabelle
  imports Main
begin

section \<open>Data model\<close>

text \<open>
  The types of \<^verbatim>\<open>src/types\<close>. An optional property (\<^verbatim>\<open>node?: string\<close>) is an
  \<open>option\<close>, \<open>None\<close> being JavaScript's \<^verbatim>\<open>undefined\<close>. Field names that are Isabelle
  keywords are renamed: \<^verbatim>\<open>context\<close> is \<open>ctx\<close>, \<^verbatim>\<open>end\<close> is \<open>end_flag\<close>, \<^verbatim>\<open>next\<close> is
  \<open>next_node\<close>, \<^verbatim>\<open>done\<close> is \<open>done_flag\<close>.
\<close>

type_synonym reason = string

text \<open>
  A handler is user code. What the engine sees of one invocation is the sequence of calls
  it makes to the two callbacks it is handed (\<^verbatim>\<open>send\<close> and \<^verbatim>\<open>transition\<close>, both typed as
  returning nothing), what it leaves in the context object, and whether the promise it
  returns is fulfilled, rejects or never settles.
\<close>

datatype callback = Send string | Transition string

datatype completion = Returns | Throws reason | Never_settles

record 'c handler_run =
  calls :: "callback list"
  ctx_out :: 'c
  ended :: completion

record 'c NodeHandlers =
  end_flag :: "bool option"
  onEnter :: "('c \<Rightarrow> 'c handler_run) option"
  onReceive :: "(string \<Rightarrow> 'c \<Rightarrow> 'c handler_run) option"

text \<open>
  Modelled from the spec: the declaration of \<^verbatim>\<open>FlowResponse\<close> (\<^verbatim>\<open>src/types/flow.ts\<close>) is not
  among the sources. Section 3 of the specification gives it the fields \<^verbatim>\<open>messages\<close>,
  \<^verbatim>\<open>next\<close> (a node id or absent) and \<^verbatim>\<open>done\<close>. The engine stores \<^verbatim>\<open>finalNode?.end\<close> in
  \<^verbatim>\<open>done\<close> as it is, which is \<^verbatim>\<open>undefined\<close> for a node without the flag, and the API
  reference of the README declares \<^verbatim>\<open>done?: boolean\<close>: the field is optional here.
\<close>

record FlowResponse =
  messages :: "string list"
  next_node :: "string option"
  done_flag :: "bool option"

text \<open>A promise of a response: fulfilled, rejected, or never settled.\<close>

datatype settlement = Resolved FlowResponse | Rejected reason | Pending

text \<open>
  The context object is shared by reference between the caller, the plugins and the
  handlers, so its state is threaded: a promise-returning function takes the state of the
  context when it is called and gives the settlement with the state it leaves.
\<close>

type_synonym 'c outcome = "settlement \<times> 'c"

record 'c BotPlugin =
  intercept :: "('c \<Rightarrow> ('c \<Rightarrow> 'c outcome) \<Rightarrow> 'c outcome) option"

record 'c BotConfig =
  defaultStartNode :: string
  plugins :: "'c BotPlugin list option"

record 'c RunArgs =
  node :: "string option"
  ctx :: 'c
  message :: "string option"

section \<open>JavaScript string operations used by the engine\<close>

text \<open>Truthiness of a \<^verbatim>\<open>string | undefined\<close>: only \<^verbatim>\<open>undefined\<close> and \<^verbatim>\<open>""\<close> are falsy.\<close>

definition truthy :: "string option \<Rightarrow> bool" where
  "truthy v = (case v of None \<Rightarrow> False | Some s \<Rightarrow> s \<noteq> [])"

text \<open>\<^verbatim>\<open>v || d\<close> for \<^verbatim>\<open>v: string | undefined\<close> and \<^verbatim>\<open>d: string\<close>.\<close>

definition or_else :: "string option \<Rightarrow> string \<Rightarrow> string" where
  "or_else v d = (case v of None \<Rightarrow> d | Some s \<Rightarrow> if s = [] then d else s)"

text \<open>\<^verbatim>\<open>s.split(sep)\<close> for a one-character separator; the result is never empty.\<close>

fun split_on :: "char \<Rightarrow> string \<Rightarrow> string list" where
  "split_on sep [] = [[]]"
| "split_on sep (c # cs) =
     (if c = sep then [] # split_on sep cs
      else (case split_on sep cs of
              [] \<Rightarrow> [[c]]
            | w # ws \<Rightarrow> (c # w) # ws))"

text \<open>\<^verbatim>\<open>s.includes(".")\<close>.\<close>

definition includes_dot :: "string \<Rightarrow> bool" where
  "includes_dot s = (CHR ''.'' \<in> set s)"

section \<open>Flow builder (class Flow, Bot.flow)\<close>

record 'c Flow =
  flowName :: string
  stateManager :: "string \<rightharpoonup> 'c NodeHandlers"

text \<open>\<^verbatim>\<open>Flow.node(id, handlers)\<close>: one \<^verbatim>\<open>Map.set\<close> on the bot's registry.\<close>

definition Flow_node :: "'c Flow \<Rightarrow> string \<Rightarrow> 'c NodeHandlers \<Rightarrow> 'c Flow" where
  "Flow_node f ident handlers =
     f\<lparr>stateManager := (stateManager f)(flowName f @ ''.'' @ ident \<mapsto> handlers)\<rparr>"

text \<open>
  \<^verbatim>\<open>Bot.flow(name, builder)\<close> makes a \<open>Flow\<close> on the bot's registry and hands it to the
  builder. The builder's use of that handle is the sequence of its \<^verbatim>\<open>node\<close> calls; the
  result is the registry they leave.
\<close>

fun build :: "'c Flow \<Rightarrow> (string \<times> 'c NodeHandlers) list \<Rightarrow> 'c Flow" where
  "build f [] = f"
| "build f ((ident, handlers) # rest) = build (Flow_node f ident handlers) rest"

definition Bot_flow ::
  "string \<Rightarrow> (string \<times> 'c NodeHandlers) list \<Rightarrow> (string \<rightharpoonup> 'c NodeHandlers)
     \<Rightarrow> (string \<rightharpoonup> 'c NodeHandlers)" where
  "Bot_flow name builder reg = stateManager (build \<lparr>flowName = name, stateManager = reg\<rparr> builder)"

text \<open>A bot's registry after any number of \<^verbatim>\<open>flow\<close> calls; the constructor starts it empty.\<close>

fun Bot_flows ::
  "(string \<times> (string \<times> 'c NodeHandlers) list) list \<Rightarrow> (string \<rightharpoonup> 'c NodeHandlers)
     \<Rightarrow> (string \<rightharpoonup> 'c NodeHandlers)" where
  "Bot_flows [] reg = reg"
| "Bot_flows ((name, builder) # rest) reg = Bot_flows rest (Bot_flow name builder reg)"

section \<open>Execution engine (Bot.internalRun)\<close>

text \<open>
  What one execution observably does, in the order it happens: the handlers the engine
  invokes and the callback calls those handlers make. The trace is only ever appended to;
  the engine never reads it.
\<close>

datatype event =
  Invoked_onReceive string string
| Invoked_onEnter string
| Called callback

text \<open>
  The variables of one \<^verbatim>\<open>internalRun\<close> call that its closures share: the \<^verbatim>\<open>messages\<close>
  array, the \<^verbatim>\<open>next\<close> variable, the state of the context object, the trace, and how the
  last awaited handler ended.
\<close>

record 'c exec =
  msgs :: "string list"
  nxt :: "string option"
  store :: 'c
  trace :: "event list"
  status :: completion

definition send :: "string \<Rightarrow> 'c exec \<Rightarrow> 'c exec" where
  "send m e = e\<lparr>msgs := msgs e @ [m], trace := trace e @ [Called (Send m)]\<rparr>"

definition transition :: "string \<Rightarrow> string \<Rightarrow> 'c exec \<Rightarrow> 'c exec" where
  "transition currentNodeId nodeId e =
     (let currentFlowName = (case split_on CHR ''.'' currentNodeId of
                               [] \<Rightarrow> ''undefined''
                             | first # _ \<Rightarrow> first)
      in e\<lparr>nxt := Some (if includes_dot nodeId then nodeId
                         else currentFlowName @ ''.'' @ nodeId),
            trace := trace e @ [Called (Transition nodeId)]\<rparr>)"

fun perform :: "string \<Rightarrow> callback \<Rightarrow> 'c exec \<Rightarrow> 'c exec" where
  "perform currentNodeId (Send m) e = send m e"
| "perform currentNodeId (Transition nodeId) e = transition currentNodeId nodeId e"

fun perform_all :: "string \<Rightarrow> callback list \<Rightarrow> 'c exec \<Rightarrow> 'c exec" where
  "perform_all currentNodeId [] e = e"
| "perform_all currentNodeId (c # cs) e = perform_all currentNodeId cs (perform currentNodeId c e)"

text \<open>
  \<^verbatim>\<open>await handler({..., context, send, transition})\<close>: the invocation is recorded, the
  handler's callback calls take effect one after the other, and the handler leaves its
  context and its completion.
\<close>

definition invoke :: "string \<Rightarrow> event \<Rightarrow> 'c handler_run \<Rightarrow> 'c exec \<Rightarrow> 'c exec" where
  "invoke currentNodeId ev r e =
     (perform_all currentNodeId (calls r) (e\<lparr>trace := trace e @ [ev]\<rparr>))
       \<lparr>store := ctx_out r, status := ended r\<rparr>"

definition currentNodeId_of :: "'c BotConfig \<Rightarrow> 'c RunArgs \<Rightarrow> string" where
  "currentNodeId_of cfg args = or_else (node args) (defaultStartNode cfg)"

text \<open>Lines 177 to 196: the fresh locals, then the \<^verbatim>\<open>onReceive\<close> step.\<close>

definition receive_phase ::
  "(string \<rightharpoonup> 'c NodeHandlers) \<Rightarrow> string \<Rightarrow> 'c RunArgs \<Rightarrow> 'c exec" where
  "receive_phase reg currentNodeId args =
     (let e0 = \<lparr>msgs = [], nxt = None, store = ctx args, trace = [], status = Returns\<rparr>;
          nd = reg currentNodeId
      in if truthy (message args) then
           (case Option.bind nd onReceive of
              None \<Rightarrow> e0
            | Some h \<Rightarrow>
                invoke currentNodeId (Invoked_onReceive currentNodeId (the (message args)))
                  (h (the (message args)) (store e0)) e0)
         else e0)"

definition finalNodeId :: "string \<Rightarrow> 'c exec \<Rightarrow> string" where
  "finalNodeId currentNodeId e = or_else (nxt e) currentNodeId"

text \<open>Lines 198 to 208: the final node is looked up once, then the \<^verbatim>\<open>onEnter\<close> step.\<close>

definition enter_phase ::
  "(string \<rightharpoonup> 'c NodeHandlers) \<Rightarrow> string \<Rightarrow> bool \<Rightarrow> 'c exec \<Rightarrow> 'c exec" where
  "enter_phase reg currentNodeId isFirstRun e =
     (let finalNode = reg (finalNodeId currentNodeId e)
      in if isFirstRun \<or> truthy (nxt e) then
           (case Option.bind finalNode onEnter of
              None \<Rightarrow> e
            | Some h \<Rightarrow>
                invoke currentNodeId (Invoked_onEnter (finalNodeId currentNodeId e))
                  (h (store e)) e)
         else e)"

text \<open>Lines 210 to 214, with the final node found before the \<^verbatim>\<open>onEnter\<close> step.\<close>

definition respond :: "'c NodeHandlers option \<Rightarrow> string \<Rightarrow> 'c exec \<Rightarrow> FlowResponse" where
  "respond finalNode currentNodeId e =
     \<lparr>messages = msgs e,
      next_node = (if Option.bind finalNode end_flag = Some True then None
                   else Some (or_else (nxt e) currentNodeId)),
      done_flag = Option.bind finalNode end_flag\<rparr>"

record 'c run_result =
  settled :: settlement
  final_ctx :: 'c
  events :: "event list"

definition failed :: "completion \<Rightarrow> 'c exec \<Rightarrow> 'c run_result" where
  "failed c e =
     \<lparr>settled = (case c of Throws why \<Rightarrow> Rejected why | _ \<Rightarrow> Pending),
      final_ctx = store e, events = trace e\<rparr>"

text \<open>
  A handler that rejects or never settles ends the execution where it is awaited: the
  engine catches nothing.
\<close>

definition internalRun ::
  "'c BotConfig \<Rightarrow> (string \<rightharpoonup> 'c NodeHandlers) \<Rightarrow> 'c RunArgs \<Rightarrow> 'c run_result" where
  "internalRun cfg reg args =
     (let isFirstRun = \<not> truthy (node args);
          currentNodeId = currentNodeId_of cfg args;
          e1 = receive_phase reg currentNodeId args
      in if status e1 \<noteq> Returns then failed (status e1) e1
         else
           (let finalNode = reg (finalNodeId currentNodeId e1);
                e2 = enter_phase reg currentNodeId isFirstRun e1
            in if status e2 \<noteq> Returns then failed (status e2) e2
               else \<lparr>settled = Resolved (respond finalNode currentNodeId e2),
                     final_ctx = store e2, events = trace e2\<rparr>))"

section \<open>Plugin chain (Bot.run)\<close>

text \<open>
  The loop of \<^verbatim>\<open>run\<close> over the reversed plugin list: a plugin with an \<^verbatim>\<open>intercept\<close>
  wraps the handler built so far, any other leaves it as it is.
\<close>

fun wrap :: "'c BotPlugin list \<Rightarrow> ('c \<Rightarrow> 'c outcome) \<Rightarrow> ('c \<Rightarrow> 'c outcome)" where
  "wrap [] handler = handler"
| "wrap (plugin # rest) handler =
     wrap rest (case intercept plugin of
                  None \<Rightarrow> handler
                | Some i \<Rightarrow> (\<lambda>c. i c handler))"

text \<open>\<^verbatim>\<open>() => this.internalRun(args)\<close>, on the context object as it is when called.\<close>

definition baseRun ::
  "'c BotConfig \<Rightarrow> (string \<rightharpoonup> 'c NodeHandlers) \<Rightarrow> 'c RunArgs \<Rightarrow> 'c \<Rightarrow> 'c outcome" where
  "baseRun cfg reg args c =
     (let r = internalRun cfg reg (args\<lparr>ctx := c\<rparr>) in (settled r, final_ctx r))"

definition run ::
  "'c BotConfig \<Rightarrow> (string \<rightharpoonup> 'c NodeHandlers) \<Rightarrow> 'c RunArgs \<Rightarrow> 'c outcome" where
  "run cfg reg args =
     (let ps = (case plugins cfg of None \<Rightarrow> [] | Some l \<Rightarrow> l);
          handler = wrap (rev ps) (baseRun cfg reg args)
      in handler (ctx args))"

section \<open>Vocabulary of the properties\<close>

text \<open>Reading a trace: the messages sent, the transition targets, the handlers invoked.\<close>

fun sent :: "event list \<Rightarrow> string list" where
  "sent [] = []"
| "sent (Called (Send m) # evs) = m # sent evs"
| "sent (ev # evs) = sent evs"

fun transitioned :: "event list \<Rightarrow> string list" where
  "transitioned [] = []"
| "transitioned (Called (Transition t) # evs) = t # transitioned evs"
| "transitioned (ev # evs) = transitioned evs"

fun entered :: "event list \<Rightarrow> string list" where
  "entered [] = []"
| "entered (Invoked_onEnter n # evs) = n # entered evs"
| "entered (ev # evs) = entered evs"

fun received :: "event list \<Rightarrow> (string \<times> string) list" where
  "received [] = []"
| "received (Invoked_onReceive n m # evs) = (n, m) # received evs"
| "received (ev # evs) = received evs"

text \<open>The flow segment of a node id: what stands before its first separator.\<close>

definition flow_segment :: "string \<Rightarrow> string" where
  "flow_segment c = takeWhile (\<lambda>x. x \<noteq> CHR ''.'') c"

text \<open>
  The Transition Resolver as the specification words it (section 4.3): a target that
  contains the separator is returned unchanged, any other is prefixed with the current
  flow and the separator.
\<close>

definition resolve :: "string \<Rightarrow> string \<Rightarrow> string" where
  "resolve currentFlow target =
     (if CHR ''.'' \<in> set target then target else currentFlow @ ''.'' @ target)"

text \<open>
  The target \<^verbatim>\<open>next\<close> holds after a sequence of transition calls issued while the
  current node is \<open>c\<close>: the last one, resolved in the flow of \<open>c\<close>.
\<close>

definition last_target :: "string \<Rightarrow> string list \<Rightarrow> string option" where
  "last_target c ts = (if ts = [] then None else Some (resolve (flow_segment c) (last ts)))"

text \<open>The locals of a run after its \<^verbatim>\<open>onReceive\<close> step, and the node it then ends on.\<close>

definition after_receive ::
  "'c BotConfig \<Rightarrow> (string \<rightharpoonup> 'c NodeHandlers) \<Rightarrow> 'c RunArgs \<Rightarrow> 'c exec" where
  "after_receive cfg reg args = receive_phase reg (currentNodeId_of cfg args) args"

definition final_id ::
  "'c BotConfig \<Rightarrow> (string \<rightharpoonup> 'c NodeHandlers) \<Rightarrow> 'c RunArgs \<Rightarrow> string" where
  "final_id cfg reg args = finalNodeId (currentNodeId_of cfg args) (after_receive cfg reg args)"

definition after_enter ::
  "'c BotConfig \<Rightarrow> (string \<rightharpoonup> 'c NodeHandlers) \<Rightarrow> 'c RunArgs \<Rightarrow> 'c exec" where
  "after_enter cfg reg args =
     enter_phase reg (currentNodeId_of cfg args) (\<not> truthy (node args)) (after_receive cfg reg args)"

text \<open>
  The plugin chain as the specification words it (section 4.4): the first interceptor is
  the outermost wrapper, the last one is closest to the base handler.
\<close>

fun nested ::
  "('c \<Rightarrow> ('c \<Rightarrow> 'c outcome) \<Rightarrow> 'c outcome) list \<Rightarrow> ('c \<Rightarrow> 'c outcome) \<Rightarrow> ('c \<Rightarrow> 'c outcome)" where
  "nested [] base = base"
| "nested (i # inner) base = (\<lambda>c. i c (nested inner base))"

text \<open>The interceptors of a plugin list, in declaration order.\<close>

fun interceptors :: "'c BotPlugin list \<Rightarrow> ('c \<Rightarrow> ('c \<Rightarrow> 'c outcome) \<Rightarrow> 'c outcome) list" where
  "interceptors [] = []"
| "interceptors (p # ps) =
     (case intercept p of None \<Rightarrow> interceptors ps | Some i \<Rightarrow> i # interceptors ps)"

text \<open>
  The invariant of the locals while the current node is \<open>c\<close>: \<^verbatim>\<open>messages\<close> holds the sends
  of the trace in order, and \<^verbatim>\<open>next\<close> the last transition target of the trace, resolved
  in the flow of \<open>c\<close>.
\<close>

definition in_step :: "string \<Rightarrow> 'c exec \<Rightarrow> bool" where
  "in_step c e \<longleftrightarrow>
     msgs e = sent (trace e) \<and> nxt e = last_target c (transitioned (trace e))"

text \<open>The arguments of the \<^verbatim>\<open>send\<close> calls and of the \<^verbatim>\<open>transition\<close> calls among a handler's calls.\<close>

fun sends :: "callback list \<Rightarrow> string list" where
  "sends [] = []"
| "sends (Send m # cs) = m # sends cs"
| "sends (Transition t # cs) = sends cs"

fun targets :: "callback list \<Rightarrow> string list" where
  "targets [] = []"
| "targets (Send m # cs) = targets cs"
| "targets (Transition t # cs) = t # targets cs"

definition calls_of :: "'c handler_run option \<Rightarrow> callback list" where
  "calls_of r = (case r of None \<Rightarrow> [] | Some hr \<Rightarrow> calls hr)"

text \<open>
  The handler runs of an execution, read off the handlers in the registry and not off the
  engine's locals: what \<^verbatim>\<open>onReceive\<close> of the current node does on the message and the
  caller's context, when the message is non-empty and the node has the handler; and what
  \<^verbatim>\<open>onEnter\<close> does on the context left so far, for the node named by the last transition
  target of the \<^verbatim>\<open>onReceive\<close> run (the current node when there is none), when the run is a
  first run or the \<^verbatim>\<open>onReceive\<close> run called \<^verbatim>\<open>transition\<close>, and that node has the handler.
  The messages and the \<^verbatim>\<open>next\<close> of a response are compared with the calls of these runs.
\<close>

definition onReceive_run ::
  "'c BotConfig \<Rightarrow> (string \<rightharpoonup> 'c NodeHandlers) \<Rightarrow> 'c RunArgs \<Rightarrow> 'c handler_run option" where
  "onReceive_run cfg reg args =
     (if truthy (message args) then
        (case Option.bind (reg (currentNodeId_of cfg args)) onReceive of
           None \<Rightarrow> None
         | Some h \<Rightarrow> Some (h (the (message args)) (ctx args)))
      else None)"

definition entered_id ::
  "'c BotConfig \<Rightarrow> (string \<rightharpoonup> 'c NodeHandlers) \<Rightarrow> 'c RunArgs \<Rightarrow> string" where
  "entered_id cfg reg args =
     (if targets (calls_of (onReceive_run cfg reg args)) = [] then currentNodeId_of cfg args
      else resolve (flow_segment (currentNodeId_of cfg args))
             (last (targets (calls_of (onReceive_run cfg reg args)))))"

definition onEnter_run ::
  "'c BotConfig \<Rightarrow> (string \<rightharpoonup> 'c NodeHandlers) \<Rightarrow> 'c RunArgs \<Rightarrow> 'c handler_run option" where
  "onEnter_run cfg reg args =
     (if \<not> truthy (node args) \<or> targets (calls_of (onReceive_run cfg reg args)) \<noteq> [] then
        (case Option.bind (reg (entered_id cfg reg args)) onEnter of
           None \<Rightarrow> None
         | Some g \<Rightarrow> Some (g (case onReceive_run cfg reg args of
                                 None \<Rightarrow> ctx args
                               | Some rr \<Rightarrow> ctx_out rr)))
      else None)"

text \<open>Every key of a registry contains the separator.\<close>

definition keys_qualified :: "(string \<rightharpoonup> 'v) \<Rightarrow> bool" where
  "keys_qualified reg \<longleftrightarrow> (\<forall>k \<in> dom reg. CHR ''.'' \<in> set k)"

section \<open>Scenarios\<close>

text \<open>
  The context of the scenarios is a counter that every handler increments, so that the
  context a call leaves tells how many handlers ran.
\<close>

definition handler_does :: "callback list \<Rightarrow> nat \<Rightarrow> nat handler_run" where
  "handler_does cs c = \<lparr>calls = cs, ctx_out = Suc c, ended = Returns\<rparr>"

text \<open>
  The bot of the specification's scenario (section 8): \<^verbatim>\<open>welcome\<close> greets on entry and
  moves to \<^verbatim>\<open>bye\<close> on any message, \<^verbatim>\<open>bye\<close> is terminal.
\<close>

definition welcome_node :: "nat NodeHandlers" where
  "welcome_node =
     \<lparr>end_flag = None,
      onEnter = Some (handler_does [Send ''hi'']),
      onReceive = Some (\<lambda>m. handler_does [Transition ''bye''])\<rparr>"

definition bye_node :: "nat NodeHandlers" where
  "bye_node =
     \<lparr>end_flag = Some True,
      onEnter = Some (handler_does [Send ''later'']),
      onReceive = None\<rparr>"

definition main_config :: "nat BotConfig" where
  "main_config = \<lparr>defaultStartNode = ''main.welcome'', plugins = None\<rparr>"

definition main_registry :: "string \<rightharpoonup> nat NodeHandlers" where
  "main_registry =
     Bot_flows [(''main'', [(''welcome'', welcome_node), (''bye'', bye_node)])] Map.empty"

text \<open>
  A bot with two flows: \<^verbatim>\<open>a.x\<close> calls \<^verbatim>\<open>transition\<close> twice and ends in the other flow, whose
  node \<^verbatim>\<open>c.y\<close> sends and issues a bare transition on entry; \<^verbatim>\<open>a.u\<close> answers a message
  and stays; \<^verbatim>\<open>a.w\<close> moves to a node that nobody registered; \<^verbatim>\<open>a.v\<close> has a receive
  handler that throws.
\<close>

definition x_node :: "nat NodeHandlers" where
  "x_node =
     \<lparr>end_flag = None,
      onEnter = Some (handler_does [Send ''again'']),
      onReceive = Some (\<lambda>m. handler_does
                     [Send ''one'', Transition ''b'', Transition ''c.y'', Send ''two''])\<rparr>"

definition y_node :: "nat NodeHandlers" where
  "y_node =
     \<lparr>end_flag = Some False,
      onEnter = Some (handler_does [Send ''three'', Transition ''z'']),
      onReceive = None\<rparr>"

definition u_node :: "nat NodeHandlers" where
  "u_node =
     \<lparr>end_flag = None,
      onEnter = Some (handler_does [Send ''menu'']),
      onReceive = Some (\<lambda>m. handler_does [Send ''pardon?''])\<rparr>"

definition w_node :: "nat NodeHandlers" where
  "w_node =
     \<lparr>end_flag = None,
      onEnter = None,
      onReceive = Some (\<lambda>m. handler_does [Send ''off we go'', Transition ''ghost''])\<rparr>"

definition v_node :: "nat NodeHandlers" where
  "v_node =
     \<lparr>end_flag = None,
      onEnter = Some (handler_does [Send ''never'']),
      onReceive = Some (\<lambda>m c. \<lparr>calls = [], ctx_out = c, ended = Throws ''boom''\<rparr>)\<rparr>"

definition two_flows_config :: "nat BotConfig" where
  "two_flows_config = \<lparr>defaultStartNode = ''a.x'', plugins = None\<rparr>"

definition two_flows_registry :: "string \<rightharpoonup> nat NodeHandlers" where
  "two_flows_registry =
     Bot_flows [(''a'', [(''x'', x_node), (''u'', u_node), (''w'', w_node), (''v'', v_node)]),
                (''c'', [(''y'', y_node)])] Map.empty"

text \<open>
  A node that sends the empty string among other messages and ends by calling
  \<^verbatim>\<open>transition\<close> with the empty string.
\<close>

definition s_node :: "nat NodeHandlers" where
  "s_node =
     \<lparr>end_flag = None,
      onEnter = None,
      onReceive = Some (\<lambda>m. handler_does
                     [Send ''first'', Send '''', Transition ''b'', Send ''last'', Transition ''''])\<rparr>"

definition edge_config :: "nat BotConfig" where
  "edge_config = \<lparr>defaultStartNode = ''a.s'', plugins = None\<rparr>"

definition edge_registry :: "string \<rightharpoonup> nat NodeHandlers" where
  "edge_registry = Bot_flows [(''a'', [(''s'', s_node)])] Map.empty"

text \<open>
  The bot of the documentation in \<^verbatim>\<open>src/index.ts\<close>: one flow \<^verbatim>\<open>main\<close> with the node \<^verbatim>\<open>welcome\<close>,
  which greets on entry and moves to \<^verbatim>\<open>help\<close> when the message is \<^verbatim>\<open>help\<close>. The context is
  the pair of a user id and a session id, and no handler changes it.
\<close>

definition docs_welcome_node :: "(string \<times> string) NodeHandlers" where
  "docs_welcome_node =
     \<lparr>end_flag = None,
      onEnter = Some (\<lambda>c. \<lparr>calls = [Send ''Welcome to our bot!''], ctx_out = c,
                             ended = Returns\<rparr>),
      onReceive = Some (\<lambda>m c. \<lparr>calls = (if m = ''help'' then [Transition ''help''] else []),
                                 ctx_out = c, ended = Returns\<rparr>)\<rparr>"

definition docs_config :: "(string \<times> string) BotConfig" where
  "docs_config = \<lparr>defaultStartNode = ''main.welcome'', plugins = None\<rparr>"

definition docs_registry :: "string \<rightharpoonup> (string \<times> string) NodeHandlers" where
  "docs_registry = Bot_flows [(''main'', [(''welcome'', docs_welcome_node)])] Map.empty"

text \<open>
  Three plugins: one without an \<^verbatim>\<open>intercept\<close>; a gate that answers by itself and never
  calls \<^verbatim>\<open>next\<close>; one that awaits \<^verbatim>\<open>next\<close> and replaces the messages of the response by a
  single string that wraps them. The last has the shape of the repository's formatting
  plugin and stands in for it: the markup library that plugin calls is not part of the
  sources, and its output (an XML declaration, escaped text) is not reproduced.
\<close>

definition idle_plugin :: "nat BotPlugin" where
  "idle_plugin = \<lparr>intercept = None\<rparr>"

definition gate_response :: FlowResponse where
  "gate_response =
     \<lparr>messages = [''Please authenticate first''], next_node = Some ''auth.login'',
      done_flag = Some False\<rparr>"

definition gate_plugin :: "nat BotPlugin" where
  "gate_plugin = \<lparr>intercept = Some (\<lambda>c next_handler. (Resolved gate_response, c))\<rparr>"

definition envelope :: "string list \<Rightarrow> string" where
  "envelope ms = ''<Response>'' @ concat (map (\<lambda>m. ''<Message>'' @ m @ ''</Message>'') ms)
                   @ ''</Response>''"

definition envelope_plugin :: "nat BotPlugin" where
  "envelope_plugin =
     \<lparr>intercept = Some (\<lambda>c next_handler.
        (case next_handler c of
           (Resolved r, c') \<Rightarrow> (Resolved (r\<lparr>messages := [envelope (messages r)]\<rparr>), c')
         | other \<Rightarrow> other))\<rparr>"

section \<open>Strings and traces\<close>

lemma split_on_nonempty: "split_on sep s \<noteq> []"
  by (induction s) (auto split: list.splits)

lemma split_on_first:
  "(case split_on sep s of [] \<Rightarrow> u | first # _ \<Rightarrow> first) = takeWhile (\<lambda>x. x \<noteq> sep) s"
  using split_on_nonempty [of sep]
  by (induction s) (auto split: list.splits)

lemma sent_append: "sent (xs @ ys) = sent xs @ sent ys"
  by (induction xs rule: sent.induct) auto

lemma transitioned_append: "transitioned (xs @ ys) = transitioned xs @ transitioned ys"
  by (induction xs rule: transitioned.induct) auto

lemma entered_append: "entered (xs @ ys) = entered xs @ entered ys"
  by (induction xs rule: entered.induct) auto

lemma received_append: "received (xs @ ys) = received xs @ received ys"
  by (induction xs rule: received.induct) auto

lemma entered_Called: "entered (map Called cs) = []"
  by (induction cs) auto

lemma received_Called: "received (map Called cs) = []"
  by (induction cs) auto

lemma resolve_dot: "CHR ''.'' \<in> set (resolve f t)"
  by (simp add: resolve_def)

lemma resolve_nonempty: "resolve f t \<noteq> []"
  using resolve_dot [of f t] by auto

lemma truthy_last_target: "truthy (last_target c ts) \<longleftrightarrow> ts \<noteq> []"
  by (simp add: last_target_def truthy_def resolve_nonempty)

lemma or_else_last_target:
  "or_else (last_target c ts) d = (case last_target c ts of None \<Rightarrow> d | Some t \<Rightarrow> t)"
  by (simp add: last_target_def or_else_def resolve_nonempty)

section \<open>The callbacks and the invariant of the locals\<close>

lemma transition_eq:
  "transition c t e =
     e\<lparr>nxt := Some (resolve (flow_segment c) t), trace := trace e @ [Called (Transition t)]\<rparr>"
  by (simp add: transition_def resolve_def flow_segment_def includes_dot_def split_on_first)

lemma perform_trace: "trace (perform c a e) = trace e @ [Called a]"
  by (cases a) (simp_all add: send_def transition_eq)

lemma perform_store: "store (perform c a e) = store e"
  by (cases a) (simp_all add: send_def transition_eq)

lemma perform_status: "status (perform c a e) = status e"
  by (cases a) (simp_all add: send_def transition_eq)

lemma perform_all_trace: "trace (perform_all c cs e) = trace e @ map Called cs"
  by (induction cs arbitrary: e) (simp_all add: perform_trace)

lemma perform_all_store: "store (perform_all c cs e) = store e"
  by (induction cs arbitrary: e) (simp_all add: perform_store)

lemma perform_all_status: "status (perform_all c cs e) = status e"
  by (induction cs arbitrary: e) (simp_all add: perform_status)

lemma perform_all_append:
  "perform_all c (xs @ ys) e = perform_all c ys (perform_all c xs e)"
  by (induction xs arbitrary: e) simp_all

lemma in_step_perform: "in_step c e \<Longrightarrow> in_step c (perform c a e)"
  by (cases a)
     (simp_all add: in_step_def send_def transition_eq sent_append transitioned_append
        last_target_def)

lemma in_step_perform_all: "in_step c e \<Longrightarrow> in_step c (perform_all c cs e)"
  by (induction cs arbitrary: e) (simp_all add: in_step_perform)

lemma in_step_invoke_receive:
  "in_step c e \<Longrightarrow> in_step c (invoke c (Invoked_onReceive n m) r e)"
  using in_step_perform_all [of c "e\<lparr>trace := trace e @ [Invoked_onReceive n m]\<rparr>" "calls r"]
  by (simp add: invoke_def in_step_def sent_append transitioned_append)

lemma in_step_invoke_enter:
  "in_step c e \<Longrightarrow> in_step c (invoke c (Invoked_onEnter n) r e)"
  using in_step_perform_all [of c "e\<lparr>trace := trace e @ [Invoked_onEnter n]\<rparr>" "calls r"]
  by (simp add: invoke_def in_step_def sent_append transitioned_append)

lemma invoke_trace: "trace (invoke c ev r e) = trace e @ ev # map Called (calls r)"
  by (simp add: invoke_def perform_all_trace)

lemma invoke_status: "status (invoke c ev r e) = ended r"
  by (simp add: invoke_def)

lemma invoke_store: "store (invoke c ev r e) = ctx_out r"
  by (simp add: invoke_def)

lemma in_step_fresh:
  "in_step c \<lparr>msgs = [], nxt = None, store = s, trace = [], status = Returns\<rparr>"
  by (simp add: in_step_def last_target_def)

lemma in_step_receive_phase: "in_step c (receive_phase reg c args)"
  by (simp add: receive_phase_def Let_def in_step_invoke_receive in_step_fresh
      split: option.splits)

lemma in_step_enter_phase: "in_step c e \<Longrightarrow> in_step c (enter_phase reg c b e)"
  by (simp add: enter_phase_def Let_def in_step_invoke_enter split: option.splits)

section \<open>The engine, step by step\<close>

lemma internalRun_steps:
  "internalRun cfg reg args =
     (if status (after_receive cfg reg args) \<noteq> Returns
      then failed (status (after_receive cfg reg args)) (after_receive cfg reg args)
      else if status (after_enter cfg reg args) \<noteq> Returns
      then failed (status (after_enter cfg reg args)) (after_enter cfg reg args)
      else \<lparr>settled = Resolved (respond (reg (final_id cfg reg args))
                                   (currentNodeId_of cfg args) (after_enter cfg reg args)),
            final_ctx = store (after_enter cfg reg args),
            events = trace (after_enter cfg reg args)\<rparr>)"
  by (simp add: internalRun_def Let_def after_receive_def after_enter_def final_id_def)

lemma failed_not_Resolved: "c \<noteq> Returns \<Longrightarrow> settled (failed c e) \<noteq> Resolved r"
  by (cases c) (simp_all add: failed_def)

lemma events_failed: "events (failed c e) = trace e"
  by (simp add: failed_def)

text \<open>
  A run resolves exactly when every handler it awaits returns, and then with the response
  built from the locals.
\<close>

lemma Resolved_iff:
  "settled (internalRun cfg reg args) = Resolved r \<longleftrightarrow>
     status (after_receive cfg reg args) = Returns \<and>
     status (after_enter cfg reg args) = Returns \<and>
     r = respond (reg (final_id cfg reg args)) (currentNodeId_of cfg args)
           (after_enter cfg reg args)"
  by (auto simp: internalRun_steps failed_not_Resolved)

lemma trace_after_receive:
  "trace (after_receive cfg reg args) =
     (if truthy (message args) then
        (case Option.bind (reg (currentNodeId_of cfg args)) onReceive of
           None \<Rightarrow> []
         | Some h \<Rightarrow> Invoked_onReceive (currentNodeId_of cfg args) (the (message args))
                      # map Called (calls (h (the (message args)) (ctx args))))
      else [])"
  by (simp add: after_receive_def receive_phase_def Let_def invoke_trace split: option.splits)

lemma trace_after_enter:
  "trace (after_enter cfg reg args) =
     trace (after_receive cfg reg args) @
     (if \<not> truthy (node args) \<or> truthy (nxt (after_receive cfg reg args)) then
        (case Option.bind (reg (final_id cfg reg args)) onEnter of
           None \<Rightarrow> []
         | Some h \<Rightarrow> Invoked_onEnter (final_id cfg reg args)
                      # map Called (calls (h (store (after_receive cfg reg args)))))
      else [])"
  by (simp add: after_enter_def enter_phase_def Let_def invoke_trace final_id_def
      split: option.splits)

lemma in_step_after_receive: "in_step (currentNodeId_of cfg args) (after_receive cfg reg args)"
  by (simp add: after_receive_def in_step_receive_phase)

lemma in_step_after_enter: "in_step (currentNodeId_of cfg args) (after_enter cfg reg args)"
  by (simp add: after_enter_def in_step_enter_phase in_step_after_receive)

lemma truthy_nxt_after_receive:
  "truthy (nxt (after_receive cfg reg args)) \<longleftrightarrow>
     transitioned (trace (after_receive cfg reg args)) \<noteq> []"
  using in_step_after_receive [of cfg args reg]
  by (simp add: in_step_def truthy_last_target)

lemma nxt_after_enter:
  "nxt (after_enter cfg reg args) =
     last_target (currentNodeId_of cfg args) (transitioned (trace (after_enter cfg reg args)))"
  using in_step_after_enter [of cfg args reg] by (simp add: in_step_def)


lemma entered_after_receive: "entered (trace (after_receive cfg reg args)) = []"
  by (simp add: trace_after_receive entered_Called split: option.splits)

lemma entered_after_enter:
  "entered (trace (after_enter cfg reg args)) =
     (if (\<not> truthy (node args) \<or> transitioned (trace (after_receive cfg reg args)) \<noteq> [])
         \<and> Option.bind (reg (final_id cfg reg args)) onEnter \<noteq> None
      then [final_id cfg reg args] else [])"
  by (simp add: trace_after_enter entered_append entered_after_receive entered_Called
      truthy_nxt_after_receive split: option.splits)

lemma events_internalRun:
  "events (internalRun cfg reg args) =
     (if status (after_receive cfg reg args) = Returns
      then trace (after_enter cfg reg args) else trace (after_receive cfg reg args))"
  by (simp add: internalRun_steps events_failed)

lemma final_id_eq:
  "final_id cfg reg args =
     (case last_target (currentNodeId_of cfg args)
             (transitioned (trace (after_receive cfg reg args))) of
        None \<Rightarrow> currentNodeId_of cfg args
      | Some t \<Rightarrow> t)"
  using in_step_after_receive [of cfg args reg]
  by (simp add: final_id_def finalNodeId_def in_step_def or_else_last_target)


lemma respond_next:
  "next_node (respond fn c e) =
     (if Option.bind fn end_flag = Some True then None else Some (or_else (nxt e) c))"
  by (simp add: respond_def)


lemma received_after_receive:
  "received (trace (after_receive cfg reg args)) =
     (if truthy (message args) \<and> Option.bind (reg (currentNodeId_of cfg args)) onReceive \<noteq> None
      then [(currentNodeId_of cfg args, the (message args))] else [])"
  by (simp add: trace_after_receive received_Called split: option.splits)

lemma received_after_enter:
  "received (trace (after_enter cfg reg args)) = received (trace (after_receive cfg reg args))"
  by (simp add: trace_after_enter received_append received_Called split: option.splits)

lemma received_internalRun:
  "received (events (internalRun cfg reg args)) =
     received (trace (after_receive cfg reg args))"
  by (simp add: events_internalRun received_after_enter)

lemma internalRun_cong:
  assumes "truthy (node a) = truthy (node b)"
    and "currentNodeId_of cfg a = currentNodeId_of cfg b"
    and "ctx a = ctx b"
    and "truthy (message a) = truthy (message b)"
    and "truthy (message a) \<Longrightarrow> message a = message b"
  shows "internalRun cfg reg a = internalRun cfg reg b"
proof -
  have "receive_phase reg (currentNodeId_of cfg b) a = receive_phase reg (currentNodeId_of cfg b) b"
    using assms(3-5) by (simp add: receive_phase_def Let_def split: option.splits)
  then show ?thesis
    using assms(1,2) by (simp add: internalRun_def Let_def)
qed

lemma internalRun_empty_node:
  "internalRun cfg reg (args\<lparr>node := Some ''''\<rparr>) = internalRun cfg reg (args\<lparr>node := None\<rparr>)"
  by (rule internalRun_cong) (simp_all add: truthy_def currentNodeId_of_def or_else_def)

lemma internalRun_empty_message:
  "internalRun cfg reg (args\<lparr>message := Some ''''\<rparr>)
     = internalRun cfg reg (args\<lparr>message := None\<rparr>)"
  by (rule internalRun_cong) (simp_all add: truthy_def currentNodeId_of_def)

lemma baseRun_empty_node:
  "baseRun cfg reg (args\<lparr>node := Some ''''\<rparr>) = baseRun cfg reg (args\<lparr>node := None\<rparr>)"
proof
  fix c
  have "internalRun cfg reg (args\<lparr>node := Some '''', ctx := c\<rparr>)
          = internalRun cfg reg (args\<lparr>node := None, ctx := c\<rparr>)"
    by (rule internalRun_cong) (simp_all add: truthy_def currentNodeId_of_def or_else_def)
  then show "baseRun cfg reg (args\<lparr>node := Some ''''\<rparr>) c = baseRun cfg reg (args\<lparr>node := None\<rparr>) c"
    by (simp add: baseRun_def)
qed

lemma baseRun_empty_message:
  "baseRun cfg reg (args\<lparr>message := Some ''''\<rparr>) = baseRun cfg reg (args\<lparr>message := None\<rparr>)"
proof
  fix c
  have "internalRun cfg reg (args\<lparr>message := Some '''', ctx := c\<rparr>)
          = internalRun cfg reg (args\<lparr>message := None, ctx := c\<rparr>)"
    by (rule internalRun_cong) (simp_all add: truthy_def currentNodeId_of_def)
  then show "baseRun cfg reg (args\<lparr>message := Some ''''\<rparr>) c
               = baseRun cfg reg (args\<lparr>message := None\<rparr>) c"
    by (simp add: baseRun_def)
qed

section \<open>The response against the handlers' calls\<close>


lemma transitioned_Called: "transitioned (map Called cs) = targets cs"
  by (induction cs rule: targets.induct) simp_all

lemma sends_append: "sends (xs @ ys) = sends xs @ sends ys"
  by (induction xs rule: sends.induct) simp_all

lemma targets_append: "targets (xs @ ys) = targets xs @ targets ys"
  by (induction xs rule: targets.induct) simp_all

lemma trace_after_receive_run:
  "trace (after_receive cfg reg args) =
     (case onReceive_run cfg reg args of
        None \<Rightarrow> []
      | Some rr \<Rightarrow> Invoked_onReceive (currentNodeId_of cfg args) (the (message args))
                    # map Called (calls rr))"
  by (simp add: trace_after_receive onReceive_run_def split: option.splits)

lemma store_after_receive_run:
  "store (after_receive cfg reg args) =
     (case onReceive_run cfg reg args of None \<Rightarrow> ctx args | Some rr \<Rightarrow> ctx_out rr)"
  by (simp add: after_receive_def receive_phase_def Let_def invoke_store onReceive_run_def
      split: option.splits)

lemma transitioned_after_receive_run:
  "transitioned (trace (after_receive cfg reg args)) = targets (calls_of (onReceive_run cfg reg args))"
  by (simp add: trace_after_receive_run calls_of_def transitioned_Called split: option.splits)


lemma final_id_entered_id: "final_id cfg reg args = entered_id cfg reg args"
  by (simp add: final_id_eq last_target_def entered_id_def transitioned_after_receive_run)

lemma trace_after_enter_run:
  "trace (after_enter cfg reg args) =
     trace (after_receive cfg reg args) @
     (case onEnter_run cfg reg args of
        None \<Rightarrow> []
      | Some er \<Rightarrow> Invoked_onEnter (entered_id cfg reg args) # map Called (calls er))"
  by (simp add: trace_after_enter truthy_nxt_after_receive transitioned_after_receive_run
      final_id_entered_id onEnter_run_def store_after_receive_run split: option.splits)


lemma transitioned_after_enter_run:
  "transitioned (trace (after_enter cfg reg args)) =
     targets (calls_of (onReceive_run cfg reg args) @ calls_of (onEnter_run cfg reg args))"
  by (simp add: trace_after_enter_run transitioned_append transitioned_after_receive_run
      calls_of_def transitioned_Called targets_append split: option.splits)

text \<open>
  The \<^verbatim>\<open>next\<close> of a response whose final node is not terminal is the target of the last
  \<^verbatim>\<open>transition\<close> call among the calls of the two handler runs, resolved in the flow of the
  current node, or the current node id when neither run called \<^verbatim>\<open>transition\<close>.
\<close>

lemma next_of_open_response:
  assumes "settled (internalRun cfg reg args) = Resolved r"
    and "Option.bind (reg (entered_id cfg reg args)) end_flag \<noteq> Some True"
  shows "next_node r =
           Some (if targets (calls_of (onReceive_run cfg reg args)
                             @ calls_of (onEnter_run cfg reg args)) = []
                 then currentNodeId_of cfg args
                 else resolve (flow_segment (currentNodeId_of cfg args))
                        (last (targets (calls_of (onReceive_run cfg reg args)
                                        @ calls_of (onEnter_run cfg reg args)))))"
proof -
  from assms(1) have r: "r = respond (reg (final_id cfg reg args)) (currentNodeId_of cfg args)
                            (after_enter cfg reg args)"
    by (simp add: Resolved_iff)
  show ?thesis
    using assms(2)
    by (simp add: r respond_next final_id_entered_id nxt_after_enter last_target_def or_else_def
        resolve_nonempty transitioned_after_enter_run)
qed

section \<open>Registered keys\<close>

lemma qualified_Flow_node:
  "keys_qualified (stateManager f) \<Longrightarrow> keys_qualified (stateManager (Flow_node f i h))"
  by (auto simp: keys_qualified_def Flow_node_def split: if_splits)

lemma qualified_build:
  "keys_qualified (stateManager f) \<Longrightarrow> keys_qualified (stateManager (build f b))"
  by (induction f b rule: build.induct) (simp_all add: qualified_Flow_node)

lemma qualified_Bot_flow: "keys_qualified reg \<Longrightarrow> keys_qualified (Bot_flow name b reg)"
  by (simp add: Bot_flow_def qualified_build)

lemma qualified_Bot_flows: "keys_qualified reg \<Longrightarrow> keys_qualified (Bot_flows fs reg)"
  by (induction fs reg rule: Bot_flows.induct) (simp_all add: qualified_Bot_flow)

section \<open>Nesting of the interceptors\<close>

lemma wrap_append: "wrap (xs @ ys) handler = wrap ys (wrap xs handler)"
  by (induction xs arbitrary: handler) simp_all

lemma wrap_rev: "wrap (rev ps) handler = nested (interceptors ps) handler"
  by (induction ps) (simp_all add: wrap_append split: option.splits)

lemma interceptors_append: "interceptors (xs @ ys) = interceptors xs @ interceptors ys"
  by (induction xs) (simp_all split: option.splits)

lemma nested_append:
  "nested (xs @ ys) base = nested xs (nested ys base)"
  by (induction xs) simp_all

lemma run_nested:
  "run cfg reg args =
     nested (interceptors (case plugins cfg of None \<Rightarrow> [] | Some l \<Rightarrow> l))
       (baseRun cfg reg args) (ctx args)"
  by (simp add: run_def wrap_rev)

text \<open>The definitions a concrete run unfolds to.\<close>

lemmas engine_defs =
  internalRun_def receive_phase_def enter_phase_def finalNodeId_def currentNodeId_of_def
  respond_def failed_def invoke_def send_def transition_def includes_dot_def truthy_def
  or_else_def after_receive_def after_enter_def final_id_def Let_def

lemmas scenario_defs =
  main_config_def main_registry_def welcome_node_def bye_node_def handler_does_def
  two_flows_config_def two_flows_registry_def x_node_def y_node_def u_node_def w_node_def
  v_node_def s_node_def edge_config_def edge_registry_def docs_welcome_node_def
  docs_config_def docs_registry_def Bot_flow_def Flow_node_def

lemmas plugin_defs = run_def baseRun_def idle_plugin_def gate_plugin_def gate_response_def
  envelope_plugin_def envelope_def


section \<open>When the engine enters a node\<close>

text \<open>
  Claim C1, as the engine has it. The engine tests \<^verbatim>\<open>!args.node\<close>, so a run is a first run
  when the node argument is absent or the empty string. In a run whose receive step
  returned (only then is there a final node), the final node's \<^verbatim>\<open>onEnter\<close> is invoked, when
  it has one, if and only if the run is a first run or \<^verbatim>\<open>transition\<close> was called during
  \<^verbatim>\<open>onReceive\<close>. No run invokes more than one \<^verbatim>\<open>onEnter\<close>. A first run without a message
  invokes the \<^verbatim>\<open>onEnter\<close> of the default start node; a run with a non-empty node whose
  receive step issued no transition invokes no \<^verbatim>\<open>onEnter\<close>.
\<close>

theorem C1_onEnter_invocation:
  "(status (after_receive cfg reg args) = Returns \<longrightarrow>
      entered (events (internalRun cfg reg args)) =
        (if (\<not> truthy (node args) \<or> transitioned (trace (after_receive cfg reg args)) \<noteq> [])
            \<and> Option.bind (reg (final_id cfg reg args)) onEnter \<noteq> None
         then [final_id cfg reg args] else []))
   \<and> length (entered (events (internalRun cfg reg args))) \<le> 1
   \<and> (\<not> truthy (node args) \<and> message args = None
        \<and> Option.bind (reg (defaultStartNode cfg)) onEnter \<noteq> None \<longrightarrow>
        entered (events (internalRun cfg reg args)) = [defaultStartNode cfg])
   \<and> (truthy (node args) \<and> transitioned (trace (after_receive cfg reg args)) = [] \<longrightarrow>
        entered (events (internalRun cfg reg args)) = [])"
proof (intro conjI impI)
  assume "status (after_receive cfg reg args) = Returns"
  then show "entered (events (internalRun cfg reg args)) =
        (if (\<not> truthy (node args) \<or> transitioned (trace (after_receive cfg reg args)) \<noteq> [])
            \<and> Option.bind (reg (final_id cfg reg args)) onEnter \<noteq> None
         then [final_id cfg reg args] else [])"
    by (simp add: events_internalRun entered_after_enter)
next
  show "length (entered (events (internalRun cfg reg args))) \<le> 1"
    by (simp add: events_internalRun entered_after_enter entered_after_receive)
next
  assume a: "\<not> truthy (node args) \<and> message args = None
        \<and> Option.bind (reg (defaultStartNode cfg)) onEnter \<noteq> None"
  then have quiet: "trace (after_receive cfg reg args) = []"
    by (simp add: trace_after_receive truthy_def)
  have ret: "status (after_receive cfg reg args) = Returns"
    using a by (simp add: after_receive_def receive_phase_def truthy_def)
  have cur: "currentNodeId_of cfg args = defaultStartNode cfg"
    using a by (auto simp: currentNodeId_of_def or_else_def truthy_def split: option.splits)
  have "final_id cfg reg args = defaultStartNode cfg"
    by (simp add: final_id_eq quiet last_target_def cur)
  with a ret show "entered (events (internalRun cfg reg args)) = [defaultStartNode cfg]"
    by (simp add: events_internalRun entered_after_enter)
next
  assume a: "truthy (node args) \<and> transitioned (trace (after_receive cfg reg args)) = []"
  then show "entered (events (internalRun cfg reg args)) = []"
    by (simp add: events_internalRun entered_after_enter entered_after_receive)
qed

text \<open>
  The scenario bot: a message at \<^verbatim>\<open>main.welcome\<close> moves to \<^verbatim>\<open>main.bye\<close>, which is entered; a
  first run without a message enters \<^verbatim>\<open>main.welcome\<close>; a message at \<^verbatim>\<open>a.u\<close> is received
  there and nothing is entered.
\<close>

theorem C1_onEnter_invocation_witness:
  "status (after_receive main_config main_registry
             \<lparr>node = Some ''main.welcome'', ctx = 0, message = Some ''x''\<rparr>) = Returns
   \<and> entered (events (internalRun main_config main_registry
             \<lparr>node = Some ''main.welcome'', ctx = 0, message = Some ''x''\<rparr>)) = [''main.bye'']
   \<and> entered (events (internalRun main_config main_registry
             \<lparr>node = None, ctx = 0, message = None\<rparr>)) = [''main.welcome'']
   \<and> received (events (internalRun two_flows_config two_flows_registry
             \<lparr>node = Some ''a.u'', ctx = 0, message = Some ''hm''\<rparr>)) = [(''a.u'', ''hm'')]
   \<and> entered (events (internalRun two_flows_config two_flows_registry
             \<lparr>node = Some ''a.u'', ctx = 0, message = Some ''hm''\<rparr>)) = []"
proof -
  have 1: "status (after_receive main_config main_registry
             \<lparr>node = Some ''main.welcome'', ctx = 0, message = Some ''x''\<rparr>) = Returns"
    by (simp add: engine_defs scenario_defs)
  have 2: "\<not> truthy (node \<lparr>node = None, ctx = 0::nat, message = None\<rparr>)
           \<and> message \<lparr>node = None, ctx = 0::nat, message = None\<rparr> = None
           \<and> Option.bind (main_registry (defaultStartNode main_config)) onEnter \<noteq> None"
    by (simp add: engine_defs scenario_defs)
  have 3: "truthy (node \<lparr>node = Some ''a.u'', ctx = 0::nat, message = Some ''hm''\<rparr>)
           \<and> transitioned (trace (after_receive two_flows_config two_flows_registry
                 \<lparr>node = Some ''a.u'', ctx = 0, message = Some ''hm''\<rparr>)) = []"
    by (simp add: engine_defs scenario_defs)
  show ?thesis
    using 1 2 3
      C1_onEnter_invocation [of main_config main_registry
        "\<lparr>node = Some ''main.welcome'', ctx = 0, message = Some ''x''\<rparr>"]
      C1_onEnter_invocation [of main_config main_registry
        "\<lparr>node = None, ctx = 0, message = None\<rparr>"]
      C1_onEnter_invocation [of two_flows_config two_flows_registry
        "\<lparr>node = Some ''a.u'', ctx = 0, message = Some ''hm''\<rparr>"]
    by (simp add: engine_defs scenario_defs)
qed

text \<open>
  Claim C1 as it is worded fails where the node argument is present and empty: the call
  \<^verbatim>\<open>run({ node: "", context })\<close> has a node argument and issues no transition, and the
  engine still invokes the \<^verbatim>\<open>onEnter\<close> of \<^verbatim>\<open>main.welcome\<close>.
\<close>

theorem C1_counterexample:
  "node \<lparr>node = Some '''', ctx = 0::nat, message = None\<rparr> \<noteq> None
   \<and> transitioned (events (internalRun main_config main_registry
         \<lparr>node = Some '''', ctx = 0, message = None\<rparr>)) = []
   \<and> entered (events (internalRun main_config main_registry
         \<lparr>node = Some '''', ctx = 0, message = None\<rparr>)) = [''main.welcome'']"
  by (simp add: engine_defs scenario_defs)

section \<open>The plugin chain\<close>

text \<open>
  Claim C2, as the code has it. \<^verbatim>\<open>run\<close> nests the interceptors of the configured plugins in
  declaration order: the first plugin with an \<^verbatim>\<open>intercept\<close> is called first, with a \<^verbatim>\<open>next\<close>
  that runs the rest of the list around the engine; plugins without an \<^verbatim>\<open>intercept\<close> are
  skipped. When a plugin answers without calling \<^verbatim>\<open>next\<close>, nothing declared after it and
  not the engine has any part in the outcome (any handler in their place gives the same
  run), and its answer is what the \<^verbatim>\<open>next\<close> of the plugin around it resolves with: it is what
  \<^verbatim>\<open>run\<close> resolves with when no plugin declared before it has an \<^verbatim>\<open>intercept\<close>.
\<close>

theorem C2_plugin_chain:
  "run cfg reg args =
     nested (interceptors (case plugins cfg of None \<Rightarrow> [] | Some l \<Rightarrow> l))
       (baseRun cfg reg args) (ctx args)
   \<and> (plugins cfg = Some (p # ps) \<and> intercept p = Some i \<longrightarrow>
        run cfg reg args =
          i (ctx args) (\<lambda>c. run (cfg\<lparr>plugins := Some ps\<rparr>) reg (args\<lparr>ctx := c\<rparr>)))
   \<and> (plugins cfg = Some (outer @ q # inner) \<and> intercept q = Some j
        \<and> (\<forall>c handler handler'. j c handler = j c handler') \<longrightarrow>
        run cfg reg args = nested (interceptors outer) (\<lambda>c. j c anything) (ctx args))
   \<and> (plugins cfg = Some (outer @ q # inner) \<and> intercept q = Some j
        \<and> interceptors outer = [] \<and> (\<forall>handler. j (ctx args) handler = answer) \<longrightarrow>
        run cfg reg args = answer)"
proof (intro conjI impI)
  show "run cfg reg args =
     nested (interceptors (case plugins cfg of None \<Rightarrow> [] | Some l \<Rightarrow> l))
       (baseRun cfg reg args) (ctx args)"
    by (rule run_nested)
next
  assume a: "plugins cfg = Some (p # ps) \<and> intercept p = Some i"
  have "baseRun (cfg\<lparr>plugins := Some ps\<rparr>) reg = baseRun cfg reg"
    by (intro ext) (simp add: baseRun_def internalRun_def currentNodeId_of_def)
  moreover have "baseRun cfg reg (args\<lparr>ctx := c\<rparr>) = baseRun cfg reg args" for c
    by (intro ext) (simp add: baseRun_def)
  ultimately have "nested (interceptors ps) (baseRun cfg reg args) =
        (\<lambda>c. run (cfg\<lparr>plugins := Some ps\<rparr>) reg (args\<lparr>ctx := c\<rparr>))"
    by (intro ext) (simp add: run_nested)
  with a show "run cfg reg args =
          i (ctx args) (\<lambda>c. run (cfg\<lparr>plugins := Some ps\<rparr>) reg (args\<lparr>ctx := c\<rparr>))"
    by (simp add: run_nested)
next
  assume a: "plugins cfg = Some (outer @ q # inner) \<and> intercept q = Some j
        \<and> (\<forall>c handler handler'. j c handler = j c handler')"
  then have "(\<lambda>c. j c (nested (interceptors inner) (baseRun cfg reg args))) = (\<lambda>c. j c anything)"
    by (intro ext) blast
  with a show "run cfg reg args = nested (interceptors outer) (\<lambda>c. j c anything) (ctx args)"
    by (simp add: run_nested interceptors_append nested_append)
next
  assume a: "plugins cfg = Some (outer @ q # inner) \<and> intercept q = Some j
        \<and> interceptors outer = [] \<and> (\<forall>handler. j (ctx args) handler = answer)"
  then show "run cfg reg args = answer"
    by (simp add: run_nested interceptors_append)
qed

text \<open>
  The gate behind a plugin without \<^verbatim>\<open>intercept\<close>: its answer is the result and the context
  counter stays at 0, no handler ran. Without the gate the envelope plugin wraps the
  engine's response, and one handler ran.
\<close>

theorem C2_plugin_chain_witness:
  "plugins (main_config\<lparr>plugins := Some [idle_plugin, gate_plugin, envelope_plugin]\<rparr>)
      = Some ([idle_plugin] @ gate_plugin # [envelope_plugin])
   \<and> interceptors [idle_plugin] = []
   \<and> run (main_config\<lparr>plugins := Some [idle_plugin, gate_plugin, envelope_plugin]\<rparr>)
        main_registry \<lparr>node = None, ctx = 0, message = None\<rparr> = (Resolved gate_response, 0)
   \<and> run (main_config\<lparr>plugins := Some [idle_plugin, envelope_plugin]\<rparr>)
        main_registry \<lparr>node = None, ctx = 0, message = None\<rparr> =
       (Resolved \<lparr>messages = [''<Response><Message>hi</Message></Response>''],
                  next_node = Some ''main.welcome'', done_flag = None\<rparr>, 1)
   \<and> run (main_config\<lparr>plugins := Some [envelope_plugin]\<rparr>)
        main_registry \<lparr>node = None, ctx = 0, message = None\<rparr> =
       the (intercept envelope_plugin) 0
         (\<lambda>c. run (main_config\<lparr>plugins := Some []\<rparr>) main_registry
                 \<lparr>node = None, ctx = c, message = None\<rparr>)"
proof -
  have 1: "plugins (main_config\<lparr>plugins := Some [idle_plugin, gate_plugin, envelope_plugin]\<rparr>)
             = Some ([idle_plugin] @ gate_plugin # [envelope_plugin])
     \<and> intercept gate_plugin = Some (\<lambda>c next_handler. (Resolved gate_response, c))
     \<and> interceptors [idle_plugin] = []
     \<and> (\<forall>handler. (\<lambda>c next_handler. (Resolved gate_response, c))
            (ctx \<lparr>node = None, ctx = 0::nat, message = None\<rparr>) handler
          = (Resolved gate_response, 0))
     \<and> (\<forall>c handler handler'. (\<lambda>c next_handler. (Resolved gate_response, c)) c handler
          = (\<lambda>c next_handler. (Resolved gate_response, c)) c handler')"
    by (simp add: gate_plugin_def idle_plugin_def)
  have 2: "plugins (main_config\<lparr>plugins := Some [envelope_plugin]\<rparr>)
             = Some (envelope_plugin # [])
     \<and> intercept envelope_plugin = Some (the (intercept envelope_plugin))"
    by (simp add: envelope_plugin_def)
  show ?thesis
    using 1 2
      C2_plugin_chain [where cfg = "main_config\<lparr>plugins := Some [idle_plugin, gate_plugin, envelope_plugin]\<rparr>"
        and reg = main_registry and args = "\<lparr>node = None, ctx = 0, message = None\<rparr>"
        and outer = "[idle_plugin]" and q = gate_plugin and inner = "[envelope_plugin]"
        and j = "\<lambda>c next_handler. (Resolved gate_response, c)"
        and answer = "(Resolved gate_response, 0)"]
      C2_plugin_chain [where cfg = "main_config\<lparr>plugins := Some [envelope_plugin]\<rparr>"
        and reg = main_registry and args = "\<lparr>node = None, ctx = 0, message = None\<rparr>"
        and p = envelope_plugin and ps = "[]" and i = "the (intercept envelope_plugin)"]
    by (simp add: engine_defs scenario_defs plugin_defs)
qed

text \<open>
  Claim C2 as it is worded fails when a plugin that calls \<^verbatim>\<open>next\<close> is declared before the
  one that does not: the gate answers without calling \<^verbatim>\<open>next\<close>, yet \<^verbatim>\<open>run\<close> resolves with
  what the envelope plugin makes of that answer, not with the gate's return value.
\<close>

theorem C2_counterexample:
  "the (intercept gate_plugin) 0
      (baseRun main_config main_registry \<lparr>node = None, ctx = 0, message = None\<rparr>)
     = (Resolved gate_response, 0)
   \<and> run (main_config\<lparr>plugins := Some [envelope_plugin, gate_plugin]\<rparr>) main_registry
        \<lparr>node = None, ctx = 0, message = None\<rparr>
     = (Resolved \<lparr>messages = [''<Response><Message>Please authenticate first</Message></Response>''],
                  next_node = Some ''auth.login'', done_flag = Some False\<rparr>, 0)
   \<and> run (main_config\<lparr>plugins := Some [envelope_plugin, gate_plugin]\<rparr>) main_registry
        \<lparr>node = None, ctx = 0, message = None\<rparr> \<noteq> (Resolved gate_response, 0)"
  by (simp add: engine_defs scenario_defs plugin_defs)

section \<open>The response\<close>



text \<open>
  Claim C4 says that a run whose final node is not terminal returns \<^verbatim>\<open>done = false\<close>, and
  the documentation of the repository says the same: for the bot and the call of the
  example in \<^verbatim>\<open>src/index.ts\<close> it gives the messages \<^verbatim>\<open>["Welcome to our bot!"]\<close>, \<^verbatim>\<open>next\<close>
  \<^verbatim>\<open>"main.welcome"\<close> and \<^verbatim>\<open>done\<close> \<^verbatim>\<open>false\<close>. At that call the engine ends on \<^verbatim>\<open>main.welcome\<close>,
  registered without an \<^verbatim>\<open>end\<close> flag, and returns the documented messages and \<^verbatim>\<open>next\<close> but
  \<^verbatim>\<open>done: undefined\<close>: it passes \<^verbatim>\<open>finalNode?.end\<close> on without turning it into a boolean.
  The \<^verbatim>\<open>next\<close> of the claim is what the engine returns, by \<open>next_of_open_response\<close>.
\<close>

theorem C4_done_of_documented_call:
  "docs_registry (final_id docs_config docs_registry
      \<lparr>node = None, ctx = (''123'', ''abc''), message = Some ''hello''\<rparr>) = Some docs_welcome_node
   \<and> end_flag docs_welcome_node = None
   \<and> settled (internalRun docs_config docs_registry
        \<lparr>node = None, ctx = (''123'', ''abc''), message = Some ''hello''\<rparr>) =
       Resolved \<lparr>messages = [''Welcome to our bot!''], next_node = Some ''main.welcome'',
                 done_flag = None\<rparr>"
  by (simp add: engine_defs scenario_defs)

section \<open>Transition resolution\<close>

text \<open>
  Claim C5. A \<^verbatim>\<open>transition\<close> call with target \<open>t\<close> while the current node id is \<open>c\<close> sets
  \<^verbatim>\<open>next\<close> to \<open>t\<close> itself when \<open>t\<close> contains the separator, and otherwise to the flow
  segment of \<open>c\<close> (what stands before its first separator), the separator and \<open>t\<close>. This
  holds for every call in a handler's sequence of calls, and both handlers of a run are
  given the same callback: after the enter step \<^verbatim>\<open>next\<close> is the last target of the whole
  execution resolved in the flow of the current node, also when that target was issued by
  the \<^verbatim>\<open>onEnter\<close> of a node of another flow.
\<close>

theorem C5_transition_resolution:
  "nxt (transition c t e) =
     Some (if CHR ''.'' \<in> set t then t else takeWhile (\<lambda>x. x \<noteq> CHR ''.'') c @ ''.'' @ t)
   \<and> nxt (perform_all c (before @ [Transition t]) e) = Some (resolve (flow_segment c) t)
   \<and> nxt (after_enter cfg reg args) =
       (if transitioned (trace (after_enter cfg reg args)) = [] then None
        else Some (resolve (flow_segment (currentNodeId_of cfg args))
                     (last (transitioned (trace (after_enter cfg reg args))))))
   \<and> (status (after_receive cfg reg args) = Returns
        \<and> Option.bind (reg (final_id cfg reg args)) onEnter = Some h
        \<and> (\<not> truthy (node args) \<or> transitioned (trace (after_receive cfg reg args)) \<noteq> [])
        \<and> calls (h (store (after_receive cfg reg args))) = before @ [Transition t] \<longrightarrow>
          nxt (after_enter cfg reg args) = Some (resolve (flow_segment (currentNodeId_of cfg args)) t))"
proof (intro conjI impI)
  show "nxt (transition c t e) =
     Some (if CHR ''.'' \<in> set t then t else takeWhile (\<lambda>x. x \<noteq> CHR ''.'') c @ ''.'' @ t)"
    by (simp add: transition_eq resolve_def flow_segment_def)
next
  show "nxt (perform_all c (before @ [Transition t]) e) = Some (resolve (flow_segment c) t)"
    by (simp add: perform_all_append transition_eq)
next
  show "nxt (after_enter cfg reg args) =
       (if transitioned (trace (after_enter cfg reg args)) = [] then None
        else Some (resolve (flow_segment (currentNodeId_of cfg args))
                     (last (transitioned (trace (after_enter cfg reg args))))))"
    by (simp add: nxt_after_enter last_target_def)
next
  assume a: "status (after_receive cfg reg args) = Returns
        \<and> Option.bind (reg (final_id cfg reg args)) onEnter = Some h
        \<and> (\<not> truthy (node args) \<or> transitioned (trace (after_receive cfg reg args)) \<noteq> [])
        \<and> calls (h (store (after_receive cfg reg args))) = before @ [Transition t]"
  then have "trace (after_enter cfg reg args) =
      trace (after_receive cfg reg args) @
        Invoked_onEnter (final_id cfg reg args) # map Called (before @ [Transition t])"
    by (simp add: trace_after_enter truthy_nxt_after_receive)
  then show "nxt (after_enter cfg reg args) =
      Some (resolve (flow_segment (currentNodeId_of cfg args)) t)"
    by (simp add: nxt_after_enter last_target_def transitioned_append)
qed

text \<open>
  At \<^verbatim>\<open>a.x\<close> the run moves to \<^verbatim>\<open>c.y\<close>, whose \<^verbatim>\<open>onEnter\<close> calls \<^verbatim>\<open>transition("z")\<close>: the result
  is \<^verbatim>\<open>a.z\<close>, not \<^verbatim>\<open>c.z\<close>.
\<close>

theorem C5_transition_resolution_witness:
  "status (after_receive two_flows_config two_flows_registry
      \<lparr>node = Some ''a.x'', ctx = 0, message = Some ''go''\<rparr>) = Returns
   \<and> final_id two_flows_config two_flows_registry
      \<lparr>node = Some ''a.x'', ctx = 0, message = Some ''go''\<rparr> = ''c.y''
   \<and> calls (the (onEnter y_node) 1) = [Send ''three''] @ [Transition ''z'']
   \<and> nxt (after_enter two_flows_config two_flows_registry
      \<lparr>node = Some ''a.x'', ctx = 0, message = Some ''go''\<rparr>) = Some ''a.z''
   \<and> resolve (flow_segment ''a.x'') ''b'' = ''a.b''
   \<and> resolve (flow_segment ''a.x'') ''c.y'' = ''c.y''"
proof -
  have hyp: "status (after_receive two_flows_config two_flows_registry
        \<lparr>node = Some ''a.x'', ctx = 0, message = Some ''go''\<rparr>) = Returns
     \<and> Option.bind (two_flows_registry (final_id two_flows_config two_flows_registry
        \<lparr>node = Some ''a.x'', ctx = 0, message = Some ''go''\<rparr>)) onEnter
         = Some (handler_does [Send ''three'', Transition ''z''])
     \<and> (\<not> truthy (node \<lparr>node = Some ''a.x'', ctx = 0::nat, message = Some ''go''\<rparr>)
         \<or> transitioned (trace (after_receive two_flows_config two_flows_registry
              \<lparr>node = Some ''a.x'', ctx = 0, message = Some ''go''\<rparr>)) \<noteq> [])
     \<and> calls (handler_does [Send ''three'', Transition ''z'']
          (store (after_receive two_flows_config two_flows_registry
              \<lparr>node = Some ''a.x'', ctx = 0, message = Some ''go''\<rparr>)))
         = [Send ''three''] @ [Transition ''z'']"
    by (simp add: engine_defs scenario_defs)
  show ?thesis
    using hyp C5_transition_resolution [where before = "[Send ''three'']" and t = "''z''"
        and cfg = two_flows_config and reg = two_flows_registry
        and args = "\<lparr>node = Some ''a.x'', ctx = 0, message = Some ''go''\<rparr>"
        and h = "handler_does [Send ''three'', Transition ''z'']"]
    by (simp add: engine_defs scenario_defs resolve_def flow_segment_def)
qed

section \<open>Order of the messages\<close>



section \<open>When the engine hands over a message\<close>

text \<open>
  Claim C7, as the engine has it. The engine tests \<^verbatim>\<open>args.message && node?.onReceive\<close>, so
  the current node's \<^verbatim>\<open>onReceive\<close> is invoked, once, if and only if the message argument is
  a non-empty string and the current node has an \<^verbatim>\<open>onReceive\<close>. It is invoked on the
  message and the caller's context, its callback calls take effect in order, and the final
  node is resolved from the transitions it has issued by the time it returns.
\<close>

theorem C7_onReceive_invocation:
  "received (events (internalRun cfg reg args)) =
     (if truthy (message args) \<and> Option.bind (reg (currentNodeId_of cfg args)) onReceive \<noteq> None
      then [(currentNodeId_of cfg args, the (message args))] else [])
   \<and> (truthy (message args) \<and> Option.bind (reg (currentNodeId_of cfg args)) onReceive = Some h
        \<longrightarrow> trace (after_receive cfg reg args) =
              Invoked_onReceive (currentNodeId_of cfg args) (the (message args))
                # map Called (calls (h (the (message args)) (ctx args)))
            \<and> store (after_receive cfg reg args) = ctx_out (h (the (message args)) (ctx args))
            \<and> status (after_receive cfg reg args) = ended (h (the (message args)) (ctx args)))
   \<and> final_id cfg reg args =
       (if transitioned (trace (after_receive cfg reg args)) = [] then currentNodeId_of cfg args
        else resolve (flow_segment (currentNodeId_of cfg args))
               (last (transitioned (trace (after_receive cfg reg args)))))"
proof (intro conjI impI)
  show "received (events (internalRun cfg reg args)) =
     (if truthy (message args) \<and> Option.bind (reg (currentNodeId_of cfg args)) onReceive \<noteq> None
      then [(currentNodeId_of cfg args, the (message args))] else [])"
    by (simp only: received_internalRun received_after_receive)
next
  assume a: "truthy (message args)
             \<and> Option.bind (reg (currentNodeId_of cfg args)) onReceive = Some h"
  then show "trace (after_receive cfg reg args) =
              Invoked_onReceive (currentNodeId_of cfg args) (the (message args))
                # map Called (calls (h (the (message args)) (ctx args)))"
    by (simp add: trace_after_receive)
  from a show "store (after_receive cfg reg args) = ctx_out (h (the (message args)) (ctx args))"
    by (simp add: after_receive_def receive_phase_def Let_def invoke_store)
  from a show "status (after_receive cfg reg args) = ended (h (the (message args)) (ctx args))"
    by (simp add: after_receive_def receive_phase_def Let_def invoke_status)
next
  show "final_id cfg reg args =
       (if transitioned (trace (after_receive cfg reg args)) = [] then currentNodeId_of cfg args
        else resolve (flow_segment (currentNodeId_of cfg args))
               (last (transitioned (trace (after_receive cfg reg args)))))"
    by (simp add: final_id_eq last_target_def)
qed

text \<open>
  A message at \<^verbatim>\<open>main.welcome\<close> is handed to its \<^verbatim>\<open>onReceive\<close>; \<^verbatim>\<open>main.bye\<close> has none; without
  a message nothing is received.
\<close>

theorem C7_onReceive_invocation_witness:
  "truthy (Some ''x'')
   \<and> Option.bind (main_registry ''main.welcome'') onReceive
       = Some (\<lambda>m. handler_does [Transition ''bye''])
   \<and> received (events (internalRun main_config main_registry
        \<lparr>node = Some ''main.welcome'', ctx = 0, message = Some ''x''\<rparr>)) = [(''main.welcome'', ''x'')]
   \<and> trace (after_receive main_config main_registry
        \<lparr>node = Some ''main.welcome'', ctx = 0, message = Some ''x''\<rparr>) =
        [Invoked_onReceive ''main.welcome'' ''x'', Called (Transition ''bye'')]
   \<and> final_id main_config main_registry
        \<lparr>node = Some ''main.welcome'', ctx = 0, message = Some ''x''\<rparr> = ''main.bye''
   \<and> received (events (internalRun main_config main_registry
        \<lparr>node = Some ''main.bye'', ctx = 0, message = Some ''x''\<rparr>)) = []
   \<and> received (events (internalRun main_config main_registry
        \<lparr>node = Some ''main.welcome'', ctx = 0, message = None\<rparr>)) = []"
proof -
  have hyp: "truthy (message \<lparr>node = Some ''main.welcome'', ctx = 0::nat, message = Some ''x''\<rparr>)
     \<and> Option.bind (main_registry (currentNodeId_of main_config
          \<lparr>node = Some ''main.welcome'', ctx = 0, message = Some ''x''\<rparr>)) onReceive
       = Some (\<lambda>m. handler_does [Transition ''bye''])"
    by (simp add: engine_defs scenario_defs)
  show ?thesis
    using hyp
      C7_onReceive_invocation [where cfg = main_config and reg = main_registry
        and args = "\<lparr>node = Some ''main.welcome'', ctx = 0, message = Some ''x''\<rparr>"
        and h = "\<lambda>m. handler_does [Transition ''bye'']"]
    by (simp add: engine_defs scenario_defs resolve_def flow_segment_def)
qed

text \<open>
  Claim C7 as it is worded fails where the message argument is supplied and empty:
  \<^verbatim>\<open>main.welcome\<close> has an \<^verbatim>\<open>onReceive\<close>, and it is not invoked.
\<close>

theorem C7_counterexample:
  "message \<lparr>node = Some ''main.welcome'', ctx = 0::nat, message = Some ''''\<rparr> \<noteq> None
   \<and> Option.bind (main_registry (currentNodeId_of main_config
        \<lparr>node = Some ''main.welcome'', ctx = 0, message = Some ''''\<rparr>)) onReceive \<noteq> None
   \<and> received (events (internalRun main_config main_registry
        \<lparr>node = Some ''main.welcome'', ctx = 0, message = Some ''''\<rparr>)) = []"
  by (simp add: engine_defs scenario_defs)

section \<open>Nodes that were never registered\<close>



section \<open>Registration\<close>

text \<open>
  Claim C9. \<^verbatim>\<open>node(i, h)\<close> on a builder of flow \<open>f\<close> stores \<open>h\<close> under the flow name, the
  separator and \<open>i\<close>, changes no other key and leaves the builder's flow name; a later
  call that yields the same key, from any builder on that registry, replaces the
  definition; the key contains the separator, and so does every key of a registry built
  from the empty one by \<^verbatim>\<open>flow\<close> calls.
\<close>

theorem C9_defineNode:
  "stateManager (Flow_node f i h) = (stateManager f)(flowName f @ ''.'' @ i \<mapsto> h)
   \<and> stateManager (Flow_node f i h) (flowName f @ ''.'' @ i) = Some h
   \<and> (k \<noteq> flowName f @ ''.'' @ i \<longrightarrow> stateManager (Flow_node f i h) k = stateManager f k)
   \<and> flowName (Flow_node f i h) = flowName f
   \<and> (flowName g @ ''.'' @ j = flowName f @ ''.'' @ i
        \<and> stateManager g = stateManager (Flow_node f i h) \<longrightarrow>
        stateManager (Flow_node g j h') = (stateManager f)(flowName f @ ''.'' @ i \<mapsto> h'))
   \<and> CHR ''.'' \<in> set (flowName f @ ''.'' @ i)
   \<and> (\<forall>key \<in> dom (Bot_flows flows Map.empty). CHR ''.'' \<in> set key)"
proof -
  have "keys_qualified (Bot_flows flows (Map.empty :: string \<rightharpoonup> 'b NodeHandlers))"
    by (rule qualified_Bot_flows) (simp add: keys_qualified_def)
  then have "\<forall>key \<in> dom (Bot_flows flows (Map.empty :: string \<rightharpoonup> 'b NodeHandlers)).
               CHR ''.'' \<in> set key"
    by (simp add: keys_qualified_def)
  then show ?thesis
    by (simp add: Flow_node_def)
qed

text \<open>
  Registering \<^verbatim>\<open>welcome\<close> again in flow \<^verbatim>\<open>main\<close> replaces it and leaves \<^verbatim>\<open>main.bye\<close>; the key
  \<^verbatim>\<open>a.b.c\<close> written from flow \<^verbatim>\<open>a\<close> is replaced from flow \<^verbatim>\<open>a.b\<close>.
\<close>

theorem C9_defineNode_witness:
  "''main.bye'' \<noteq> ''main'' @ ''.'' @ ''welcome''
   \<and> stateManager (Flow_node \<lparr>flowName = ''main'', stateManager = main_registry\<rparr>
        ''welcome'' bye_node) ''main.welcome'' = Some bye_node
   \<and> stateManager (Flow_node \<lparr>flowName = ''main'', stateManager = main_registry\<rparr>
        ''welcome'' bye_node) ''main.bye'' = main_registry ''main.bye''
   \<and> stateManager (Flow_node \<lparr>flowName = ''a.b'', stateManager = [''a.b.c'' \<mapsto> welcome_node]\<rparr>
        ''c'' bye_node) = [''a.b.c'' \<mapsto> bye_node]
   \<and> dom main_registry = {''main.welcome'', ''main.bye''}
   \<and> ''main.welcome'' \<in> dom (Bot_flows
         [(''main'', [(''welcome'', welcome_node), (''bye'', bye_node)])] Map.empty)"
proof -
  have 1: "''main.bye'' \<noteq> flowName \<lparr>flowName = ''main'', stateManager = main_registry\<rparr>
             @ ''.'' @ ''welcome''"
    by simp
  have 2: "flowName \<lparr>flowName = ''a.b'', stateManager = [''a.b.c'' \<mapsto> welcome_node]\<rparr>
               @ ''.'' @ ''c''
           = flowName \<lparr>flowName = ''a'', stateManager = Map.empty\<rparr> @ ''.'' @ ''b.c''
         \<and> stateManager \<lparr>flowName = ''a.b'', stateManager = [''a.b.c'' \<mapsto> welcome_node]\<rparr>
           = stateManager (Flow_node \<lparr>flowName = ''a'', stateManager = Map.empty\<rparr>
               ''b.c'' welcome_node)"
    by (simp add: Flow_node_def)
  have 3: "''main.welcome'' \<in> dom (Bot_flows
         [(''main'', [(''welcome'', welcome_node), (''bye'', bye_node)])] Map.empty)"
    by (simp add: Bot_flow_def Flow_node_def)
  show ?thesis
    using 1 2 3
      C9_defineNode [where f = "\<lparr>flowName = ''main'', stateManager = main_registry\<rparr>"
        and i = "''welcome''" and h = bye_node and k = "''main.bye''"
        and flows = "[(''main'', [(''welcome'', welcome_node), (''bye'', bye_node)])]"
        and g = "\<lparr>flowName = ''main'', stateManager = main_registry\<rparr>" and j = "''welcome''"]
      C9_defineNode [where f = "\<lparr>flowName = ''a'', stateManager = Map.empty\<rparr>"
        and i = "''b.c''" and h = welcome_node and h' = bye_node
        and g = "\<lparr>flowName = ''a.b'', stateManager = [''a.b.c'' \<mapsto> welcome_node]\<rparr>"
        and j = "''c''"
        and flows = "[]" and k = "''x''"]
    by (auto simp: main_registry_def Bot_flow_def Flow_node_def)
qed

section \<open>Empty strings\<close>

text \<open>
  Claim C10, as the engine has it. A run with the empty string as node is the same run as
  one without a node: the same result, context and trace, also through the plugins. It is
  a first run on the default start node, and when its receive step returned it invokes the
  \<^verbatim>\<open>onEnter\<close> of the final node when that has one; the final node is the default start node
  when the receive step issued no transition. A run with the empty string as message is
  the same run as one without a message, and invokes no \<^verbatim>\<open>onReceive\<close>.
\<close>

theorem C10_empty_strings:
  "internalRun cfg reg (args\<lparr>node := Some ''''\<rparr>) = internalRun cfg reg (args\<lparr>node := None\<rparr>)
   \<and> run cfg reg (args\<lparr>node := Some ''''\<rparr>) = run cfg reg (args\<lparr>node := None\<rparr>)
   \<and> currentNodeId_of cfg (args\<lparr>node := Some ''''\<rparr>) = defaultStartNode cfg
   \<and> (status (after_receive cfg reg (args\<lparr>node := Some ''''\<rparr>)) = Returns \<longrightarrow>
        entered (events (internalRun cfg reg (args\<lparr>node := Some ''''\<rparr>))) =
          (if Option.bind (reg (final_id cfg reg (args\<lparr>node := Some ''''\<rparr>))) onEnter \<noteq> None
           then [final_id cfg reg (args\<lparr>node := Some ''''\<rparr>)] else []))
   \<and> (transitioned (trace (after_receive cfg reg (args\<lparr>node := Some ''''\<rparr>))) = [] \<longrightarrow>
        final_id cfg reg (args\<lparr>node := Some ''''\<rparr>) = defaultStartNode cfg)
   \<and> internalRun cfg reg (args\<lparr>message := Some ''''\<rparr>)
        = internalRun cfg reg (args\<lparr>message := None\<rparr>)
   \<and> run cfg reg (args\<lparr>message := Some ''''\<rparr>) = run cfg reg (args\<lparr>message := None\<rparr>)
   \<and> received (events (internalRun cfg reg (args\<lparr>message := Some ''''\<rparr>))) = []"
proof (intro conjI impI)
  show "internalRun cfg reg (args\<lparr>node := Some ''''\<rparr>) = internalRun cfg reg (args\<lparr>node := None\<rparr>)"
    by (rule internalRun_empty_node)
  show "run cfg reg (args\<lparr>node := Some ''''\<rparr>) = run cfg reg (args\<lparr>node := None\<rparr>)"
    by (simp add: run_def baseRun_empty_node)
  show cur: "currentNodeId_of cfg (args\<lparr>node := Some ''''\<rparr>) = defaultStartNode cfg"
    by (simp add: currentNodeId_of_def or_else_def)
  show "internalRun cfg reg (args\<lparr>message := Some ''''\<rparr>)
        = internalRun cfg reg (args\<lparr>message := None\<rparr>)"
    by (rule internalRun_empty_message)
  show "run cfg reg (args\<lparr>message := Some ''''\<rparr>) = run cfg reg (args\<lparr>message := None\<rparr>)"
    by (simp add: run_def baseRun_empty_message)
  show "received (events (internalRun cfg reg (args\<lparr>message := Some ''''\<rparr>))) = []"
    by (simp add: received_internalRun received_after_receive truthy_def)
  show "final_id cfg reg (args\<lparr>node := Some ''''\<rparr>) = defaultStartNode cfg"
    if "transitioned (trace (after_receive cfg reg (args\<lparr>node := Some ''''\<rparr>))) = []"
    using that by (simp add: final_id_eq last_target_def cur)
  show "entered (events (internalRun cfg reg (args\<lparr>node := Some ''''\<rparr>))) =
          (if Option.bind (reg (final_id cfg reg (args\<lparr>node := Some ''''\<rparr>))) onEnter \<noteq> None
           then [final_id cfg reg (args\<lparr>node := Some ''''\<rparr>)] else [])"
    if "status (after_receive cfg reg (args\<lparr>node := Some ''''\<rparr>)) = Returns"
    using that by (simp add: events_internalRun entered_after_enter truthy_def)
qed

text \<open>The scenario bot called with an empty node, with no node, and with an empty message.\<close>

theorem C10_empty_strings_witness:
  "status (after_receive main_config main_registry
      \<lparr>node = Some '''', ctx = 0, message = None\<rparr>) = Returns
   \<and> transitioned (trace (after_receive main_config main_registry
      \<lparr>node = Some '''', ctx = 0, message = None\<rparr>)) = []
   \<and> internalRun main_config main_registry \<lparr>node = Some '''', ctx = 0, message = None\<rparr> =
       \<lparr>settled = Resolved \<lparr>messages = [''hi''], next_node = Some ''main.welcome'',
                            done_flag = None\<rparr>,
        final_ctx = 1, events = [Invoked_onEnter ''main.welcome'', Called (Send ''hi'')]\<rparr>
   \<and> internalRun main_config main_registry \<lparr>node = None, ctx = 0, message = None\<rparr> =
       \<lparr>settled = Resolved \<lparr>messages = [''hi''], next_node = Some ''main.welcome'',
                            done_flag = None\<rparr>,
        final_ctx = 1, events = [Invoked_onEnter ''main.welcome'', Called (Send ''hi'')]\<rparr>
   \<and> final_id main_config main_registry \<lparr>node = Some '''', ctx = 0, message = None\<rparr>
       = defaultStartNode main_config
   \<and> events (internalRun main_config main_registry
        \<lparr>node = Some ''main.welcome'', ctx = 0, message = Some ''''\<rparr>) = []"
proof -
  have hyp: "status (after_receive main_config main_registry
        (\<lparr>node = None, ctx = 0, message = None\<rparr>\<lparr>node := Some ''''\<rparr>)) = Returns
     \<and> transitioned (trace (after_receive main_config main_registry
        (\<lparr>node = None, ctx = 0, message = None\<rparr>\<lparr>node := Some ''''\<rparr>))) = []"
    by (simp add: engine_defs scenario_defs)
  show ?thesis
    using hyp
      C10_empty_strings [of main_config main_registry "\<lparr>node = None, ctx = 0, message = None\<rparr>"]
      C10_empty_strings [of main_config main_registry
        "\<lparr>node = Some ''main.welcome'', ctx = 0, message = None\<rparr>"]
    by (simp add: engine_defs scenario_defs)
qed

text \<open>
  Claim C10 as it is worded fails on a first run whose message moves the run on: with an
  empty node and the message \<^verbatim>\<open>x\<close>, the current node is the default start node
  \<^verbatim>\<open>main.welcome\<close>, which has an \<^verbatim>\<open>onEnter\<close>, and the only \<^verbatim>\<open>onEnter\<close> invoked is that of
  \<^verbatim>\<open>main.bye\<close>.
\<close>

theorem C10_counterexample:
  "currentNodeId_of main_config \<lparr>node = Some '''', ctx = 0, message = Some ''x''\<rparr>
     = ''main.welcome''
   \<and> Option.bind (main_registry ''main.welcome'') onEnter \<noteq> None
   \<and> entered (events (internalRun main_config main_registry
        \<lparr>node = Some '''', ctx = 0, message = Some ''x''\<rparr>)) = [''main.bye'']"
  by (simp add: engine_defs scenario_defs)

end
